theory Spec2Isabelle
  imports Main
begin

section \<open>JavaScript values and exceptions\<close>

text \<open>
  The settings-metadata module stores and coerces values of unknown type (its JSDoc says
  \<open>any\<close>). A value is a primitive value of the language (undefined, null, a boolean,
  a number, a string, a symbol) or an object (an array and a function are objects too).
  A number is a value of the type parameter \<open>'n\<close>; the only thing the module does with
  a number is to render it in a template literal. A string is a \<open>string\<close>: a list of
  code units below 256. An object is known by its address only: what it does when the
  module coerces it or assigns through it is decided by code outside the module, and is
  a parameter of the model, the engine below.
\<close>

datatype 'n jsval =
    JUndefined
  | JNull
  | JBool bool
  | JNum 'n
  | JStr string
  | JSymbol string
  | JObject nat

text \<open>
  What can be thrown while the module runs: \<open>new Error(message)\<close>, written by the
  module itself; the TypeError that the engine raises (a symbol in a template literal, a
  property read on undefined); and whatever the code of an object throws when the module
  coerces the object or assigns through it, which is a value of its own choice
  (\<open>Thrown\<close>, with a name for the value), a TypeError or an Error.
\<close>

datatype error = Error string | TypeError | Thrown string


text \<open>
  Names, lookup keys and note styles are typed as the JSDoc of the module types them:
  a name is a String or, for an entry built by \<open>super()\<close> without arguments,
  undefined (\<open>None\<close>); a key is a String; a style is a String or left out, that is
  undefined. \<open>truthy\<close> is \<^verbatim>\<open>!!name\<close>: undefined and the empty string are
  falsy. \<open>loose_eq\<close> is \<^verbatim>\<open>name == key\<close> for a String key: undefined equals no
  string, and two strings are equal when they are the same string.
\<close>

fun truthy :: "string option \<Rightarrow> bool" where
  "truthy None = False"
| "truthy (Some s) = (s \<noteq> [])"

fun loose_eq :: "string option \<Rightarrow> string \<Rightarrow> bool" where
  "loose_eq None key = False"
| "loose_eq (Some s) key = (s = key)"

subsection \<open>Plain objects\<close>

text \<open>
  A plain object, written \<open>{ }\<close> and filled by assignment, is its own properties and
  its prototype. The prototype is \<open>Object.prototype\<close> at first; an assignment to
  \<open>__proto__\<close> can replace it by null or by an object. \<open>Object.prototype\<close> is
  taken as the language defines it: \<open>__proto__\<close> is its only setter, and none of its
  properties is read-only.
\<close>

datatype prototype = Object_prototype | Null_prototype | Object_at nat

record 'n plain_object =
  own :: "string \<rightharpoonup> 'n jsval"
  proto :: prototype

subsection \<open>The engine: code outside the module\<close>

text \<open>
  Three things that the module does run code it does not contain. They are the
  parameters of the model, together in an engine \<open>E\<close>, and what is proved of the
  module is proved for every engine. The state that such code may read and change is the world \<open>'w\<close>,
  which every operation of the model that can run such code takes and returns.

  \<^item> \<open>number_to_string\<close>: Number::toString, the rendering of a number.
  \<^item> \<open>object_to_string a w\<close>: what a template literal does with the object at
    address \<open>a\<close> in the world \<open>w\<close>. It calls the object's \<open>toString\<close> or
    \<open>valueOf\<close>, so it yields a string or throws anything, it may answer differently
    the next time, and it leaves a new world.
  \<^item> \<open>set_through a key v obj w\<close>: what the assignment \<open>obj[key] = v\<close> does when
    \<open>obj\<close> has no own property \<open>key\<close> and its prototype is the object at \<open>a\<close>.
    A setter or a read-only property found along the chain of \<open>a\<close> decides: the own
    property may be created or not, the setter may change \<open>obj\<close> in any way, and the
    assignment may throw (the module is an ES module and so in strict mode).

  The code that an engine stands for is taken not to reach into the call of the module
  that runs it: it does not change the array that the call is iterating over, nor the
  metadata object the call was made on.
\<close>

record ('n, 'w) engine =
  number_to_string :: "'n \<Rightarrow> string"
  object_to_string :: "nat \<Rightarrow> 'w \<Rightarrow> (error + string) \<times> 'w"
  set_through ::
    "nat \<Rightarrow> string \<Rightarrow> 'n jsval \<Rightarrow> 'n plain_object \<Rightarrow> 'w \<Rightarrow> (error + 'n plain_object) \<times> 'w"

text \<open>
  A template literal \<^verbatim>\<open>`${v}`\<close> applies the abstract operation ToString to \<open>v\<close>:
  it throws a TypeError for a symbol, asks the engine for an object, and returns the
  string form of every other primitive without running any code.
\<close>

fun ToString :: "('n, 'w) engine \<Rightarrow> 'n jsval \<Rightarrow> 'w \<Rightarrow> (error + string) \<times> 'w" where
  "ToString E JUndefined w = (Inr ''undefined'', w)"
| "ToString E JNull w = (Inr ''null'', w)"
| "ToString E (JBool b) w = (Inr (if b then ''true'' else ''false''), w)"
| "ToString E (JNum n) w = (Inr (number_to_string E n), w)"
| "ToString E (JStr s) w = (Inr s, w)"
| "ToString E (JSymbol d) w = (Inl TypeError, w)"
| "ToString E (JObject a) w = object_to_string E a w"

section \<open>The metadata of one setting\<close>

text \<open>
  An object is the record of its own properties. \<open>SettingMetadata\<close> has the three
  properties the base constructor assigns. A leaf of the tree (a setting or a note) adds
  the properties its subclass constructor assigns; a property that the constructor of its
  class never assigns is absent (\<open>None\<close>). \<open>banner_text\<close> is the property \<open>text\<close>
  of an alert banner note (the name \<open>text\<close> is taken by the items of a select box).

  An array can have holes: \<open>[ , 'a' ]\<close> has length two and no element at index 0. The
  options of a categorical setting and its items are such arrays: a list whose elements
  are \<open>None\<close> at the holes.
\<close>

record 'n item =
  "value" :: "'n jsval"
  "text" :: "'n jsval"

record 'n SettingMetadata =
  name :: "string option"
  label :: "'n jsval"
  defaultValue :: "'n jsval"

record 'n LeafMetadata = "'n SettingMetadata" +
  type :: "string option"
  items :: "'n item option list option"
  level :: "string option"
  icon :: "string option"
  banner_text :: "'n jsval option"
  html :: "'n jsval option"

text \<open>
  The base constructor, as a subclass constructor of a leaf calls it through
  \<open>super(name, label, defaultValue)\<close>: the three base properties are assigned, nothing
  else yet. An argument that is left out is undefined.
\<close>

definition SettingMetadata :: "string option \<Rightarrow> 'n jsval \<Rightarrow> 'n jsval \<Rightarrow> 'n LeafMetadata" where
  "SettingMetadata nm lbl dflt =
     \<lparr>name = nm, label = lbl, defaultValue = dflt,
      type = None, items = None, level = None, icon = None, banner_text = None, html = None\<rparr>"

definition BoolSettingMetadata :: "string option \<Rightarrow> 'n jsval \<Rightarrow> 'n jsval \<Rightarrow> 'n LeafMetadata" where
  "BoolSettingMetadata nm lbl dflt = (SettingMetadata nm lbl dflt)\<lparr>type := Some ''checkbox''\<rparr>"

definition ColorSettingMetadata :: "string option \<Rightarrow> 'n jsval \<Rightarrow> 'n jsval \<Rightarrow> 'n LeafMetadata" where
  "ColorSettingMetadata nm lbl dflt = (SettingMetadata nm lbl dflt)\<lparr>type := Some ''colorinput''\<rparr>"

text \<open>
  \<open>super( name, label, `${defaultValue}` )\<close>: the template literal is evaluated first,
  and the constructor throws what it throws.
\<close>

definition TextSettingMetadata ::
  "('n, 'w) engine \<Rightarrow> string option \<Rightarrow> 'n jsval \<Rightarrow> 'n jsval \<Rightarrow> 'w
     \<Rightarrow> (error + 'n LeafMetadata) \<times> 'w" where
  "TextSettingMetadata E nm lbl dflt w =
     (case ToString E dflt w of
        (Inl e, w1) \<Rightarrow> (Inl e, w1)
      | (Inr s, w1) \<Rightarrow> (Inr ((SettingMetadata nm lbl (JStr s))\<lparr>type := Some ''input''\<rparr>), w1))"

text \<open>
  The callback of \<open>options.map\<close>:
  \<open>option => ({ value : `${option}`, text : `${option}` })\<close>. It evaluates the
  template literal twice, first for \<open>value\<close>, then for \<open>text\<close>.
\<close>

definition option_item ::
  "('n, 'w) engine \<Rightarrow> 'n jsval \<Rightarrow> 'w \<Rightarrow> (error + 'n item) \<times> 'w" where
  "option_item E opt w =
     (case ToString E opt w of
        (Inl e, w1) \<Rightarrow> (Inl e, w1)
      | (Inr v, w1) \<Rightarrow>
          (case ToString E opt w1 of
             (Inl e, w2) \<Rightarrow> (Inl e, w2)
           | (Inr t, w2) \<Rightarrow> (Inr \<lparr>value = JStr v, text = JStr t\<rparr>, w2)))"

text \<open>
  \<open>Array.prototype.map\<close> with a callback that may throw: the elements are visited in
  order, a hole is not visited and stays a hole in the result, and the first exception
  ends the call.
\<close>

fun map_throwing ::
  "('a \<Rightarrow> 'w \<Rightarrow> (error + 'b) \<times> 'w) \<Rightarrow> 'a option list \<Rightarrow> 'w \<Rightarrow> (error + 'b option list) \<times> 'w" where
  "map_throwing f [] w = (Inr [], w)"
| "map_throwing f (None # xs) w =
     (case map_throwing f xs w of
        (Inl e, w1) \<Rightarrow> (Inl e, w1)
      | (Inr ys, w1) \<Rightarrow> (Inr (None # ys), w1))"
| "map_throwing f (Some x # xs) w =
     (case f x w of
        (Inl e, w1) \<Rightarrow> (Inl e, w1)
      | (Inr y, w1) \<Rightarrow>
          (case map_throwing f xs w1 of
             (Inl e, w2) \<Rightarrow> (Inl e, w2)
           | (Inr ys, w2) \<Rightarrow> (Inr (Some y # ys), w2)))"

definition CategorySettingMetadata ::
  "('n, 'w) engine \<Rightarrow> string option \<Rightarrow> 'n jsval \<Rightarrow> 'n jsval option list \<Rightarrow> 'n jsval \<Rightarrow> 'w
     \<Rightarrow> (error + 'n LeafMetadata) \<times> 'w" where
  "CategorySettingMetadata E nm lbl options dflt w =
     (case ToString E dflt w of
        (Inl e, w1) \<Rightarrow> (Inl e, w1)
      | (Inr s, w1) \<Rightarrow>
          (case map_throwing (option_item E) options w1 of
             (Inl e, w2) \<Rightarrow> (Inl e, w2)
           | (Inr its, w2) \<Rightarrow>
               (Inr ((SettingMetadata nm lbl (JStr s))
                       \<lparr>type := Some ''selectbox'', items := Some its\<rparr>), w2)))"





subsection \<open>convert\<close>

text \<open>
  The three bodies of \<open>convert\<close>: the one of the base class, which the color, text and
  note classes inherit, the one of the boolean class and the one of the categorical class.
\<close>

definition SettingMetadata_convert :: "'n jsval \<Rightarrow> 'n jsval" where
  "SettingMetadata_convert data = data"

definition BoolSettingMetadata_convert :: "'n jsval \<Rightarrow> 'n jsval" where
  "BoolSettingMetadata_convert data = JBool (data = JBool True \<or> data = JStr ''true'')"

text \<open>
  \<open>Array.prototype.some\<close> with a callback that may throw: the elements are tried in
  order, a hole is skipped, the first exception or the first \<open>true\<close> ends the loop, and
  an array without elements gives \<open>false\<close> without calling the callback.
\<close>

fun some_throwing ::
  "('a \<Rightarrow> 'w \<Rightarrow> (error + bool) \<times> 'w) \<Rightarrow> 'a option list \<Rightarrow> 'w \<Rightarrow> (error + bool) \<times> 'w" where
  "some_throwing p [] w = (Inr False, w)"
| "some_throwing p (None # xs) w = some_throwing p xs w"
| "some_throwing p (Some x # xs) w =
     (case p x w of
        (Inl e, w1) \<Rightarrow> (Inl e, w1)
      | (Inr b, w1) \<Rightarrow> (if b then (Inr True, w1) else some_throwing p xs w1))"

text \<open>
  \<open>this.items.some( item => item.value === `${data}` ) ? `${data}` : this.items[0].value\<close>.
  The template literal of the callback is evaluated for each item that is tried, and the
  one of the result once more. Reading \<open>items\<close> on an object that has none gives
  undefined, and so does reading element 0 of an array that is empty or has a hole
  there; a property read on undefined throws a TypeError.
\<close>

definition CategorySettingMetadata_convert ::
  "('n, 'w) engine \<Rightarrow> 'n LeafMetadata \<Rightarrow> 'n jsval \<Rightarrow> 'w \<Rightarrow> (error + 'n jsval) \<times> 'w" where
  "CategorySettingMetadata_convert E this data w =
     (case items this of
        None \<Rightarrow> (Inl TypeError, w)
      | Some its \<Rightarrow>
          (case some_throwing
                  (\<lambda>it w0. case ToString E data w0 of
                              (Inl e, w1) \<Rightarrow> (Inl e, w1)
                            | (Inr s, w1) \<Rightarrow> (Inr (value it = JStr s), w1)) its w of
             (Inl e, w1) \<Rightarrow> (Inl e, w1)
           | (Inr found, w1) \<Rightarrow>
               (if found then
                  (case ToString E data w1 of
                     (Inl e, w2) \<Rightarrow> (Inl e, w2)
                   | (Inr s, w2) \<Rightarrow> (Inr (JStr s), w2))
                else
                  (case its of
                     Some it # _ \<Rightarrow> (Inr (value it), w1)
                   | _ \<Rightarrow> (Inl TypeError, w1)))))"

section \<open>Categories and the whole collection\<close>

text \<open>
  A category and the whole collection are subclasses of \<open>SettingMetadata\<close> too: their
  constructors call \<open>super()\<close> without arguments, which leaves the three base
  properties undefined, and a category then assigns its name. The contents of a category
  are leaves, and the collection is a list of categories: the tree has three levels.
\<close>

record 'n SettingsCategoryMetadata = "'n SettingMetadata" +
  contents :: "'n LeafMetadata list"

record 'n SettingsMetadata = "'n SettingMetadata" +
  categories :: "'n SettingsCategoryMetadata list"

definition SettingsCategoryMetadata ::
  "string \<Rightarrow> 'n LeafMetadata list \<Rightarrow> 'n SettingsCategoryMetadata" where
  "SettingsCategoryMetadata nm cs =
     \<lparr>name = Some nm, label = JUndefined, defaultValue = JUndefined, contents = cs\<rparr>"

definition SettingsMetadata :: "'n SettingsCategoryMetadata list \<Rightarrow> 'n SettingsMetadata" where
  "SettingsMetadata cats =
     \<lparr>name = None, label = JUndefined, defaultValue = JUndefined, categories = cats\<rparr>"

subsection \<open>keys\<close>

definition SettingsCategoryMetadata_keys :: "'n SettingsCategoryMetadata \<Rightarrow> string option list" where
  "SettingsCategoryMetadata_keys this = filter truthy (map name (contents this))"

definition SettingsMetadata_keys :: "'n SettingsMetadata \<Rightarrow> string option list" where
  "SettingsMetadata_keys this =
     foldl (\<lambda>a b. a @ b) [] (map SettingsCategoryMetadata_keys (categories this))"

subsection \<open>defaultSettings\<close>

text \<open>The object literal \<open>{ }\<close>.\<close>

definition empty_object :: "'n plain_object" where
  "empty_object = \<lparr>own = Map.empty, proto = Object_prototype\<rparr>"

text \<open>
  \<open>obj[key] = v\<close>. An own property of that name is overwritten. Without one, the
  prototype decides.
  \<^item> The prototype is null: the own property is created.
  \<^item> The prototype is \<open>Object.prototype\<close>: the own property is created, unless the
    key is \<open>__proto__\<close>. That assignment runs the setter of \<open>Object.prototype\<close> and
    creates no property: the setter makes \<open>v\<close> the prototype when \<open>v\<close> is null or
    an object, and does nothing for any other value.
  \<^item> The prototype is an object: the engine decides (\<open>set_through\<close>).
\<close>

definition assign ::
  "('n, 'w) engine \<Rightarrow> 'n plain_object \<Rightarrow> string \<Rightarrow> 'n jsval \<Rightarrow> 'w
     \<Rightarrow> (error + 'n plain_object) \<times> 'w" where
  "assign E obj key v w =
     (if own obj key \<noteq> None then (Inr (obj\<lparr>own := (own obj)(key \<mapsto> v)\<rparr>), w)
      else
        (case proto obj of
           Null_prototype \<Rightarrow> (Inr (obj\<lparr>own := (own obj)(key \<mapsto> v)\<rparr>), w)
         | Object_prototype \<Rightarrow>
             (if key = ''__proto__'' then
                (case v of
                   JNull \<Rightarrow> (Inr (obj\<lparr>proto := Null_prototype\<rparr>), w)
                 | JObject a \<Rightarrow> (Inr (obj\<lparr>proto := Object_at a\<rparr>), w)
                 | _ \<Rightarrow> (Inr obj, w))
              else (Inr (obj\<lparr>own := (own obj)(key \<mapsto> v)\<rparr>), w))
         | Object_at a \<Rightarrow> set_through E a key v obj w))"

text \<open>
  \<open>{ ...a, ...b }\<close>: a new object that inherits from \<open>Object.prototype\<close>; the own
  properties of \<open>a\<close>, then those of \<open>b\<close>, are defined on it (not assigned: no setter
  runs), so that \<open>b\<close> wins where both have a key.
\<close>

definition spread :: "'n plain_object \<Rightarrow> 'n plain_object \<Rightarrow> 'n plain_object" where
  "spread a b = \<lparr>own = own a ++ own b, proto = Object_prototype\<rparr>"

text \<open>
  The callback of \<open>forEach\<close> in the category's \<open>defaultSettings\<close>:
  \<open>if ( metadata.name ) result[metadata.name] = metadata.defaultValue\<close>.
\<close>

definition defaultSettings_callback ::
  "('n, 'w) engine \<Rightarrow> 'n plain_object \<Rightarrow> 'n LeafMetadata \<Rightarrow> 'w
     \<Rightarrow> (error + 'n plain_object) \<times> 'w" where
  "defaultSettings_callback E result metadata w =
     (case name metadata of
        None \<Rightarrow> (Inr result, w)
      | Some key \<Rightarrow>
          (if truthy (Some key) then assign E result key (defaultValue metadata) w
           else (Inr result, w)))"

text \<open>
  \<open>Array.prototype.forEach\<close> with a callback that changes \<open>result\<close> and may throw;
  the first exception ends the call.
\<close>

fun forEach_throwing ::
  "('s \<Rightarrow> 'a \<Rightarrow> 'w \<Rightarrow> (error + 's) \<times> 'w) \<Rightarrow> 'a list \<Rightarrow> 's \<Rightarrow> 'w \<Rightarrow> (error + 's) \<times> 'w" where
  "forEach_throwing f [] result w = (Inr result, w)"
| "forEach_throwing f (x # xs) result w =
     (case f result x w of
        (Inl e, w1) \<Rightarrow> (Inl e, w1)
      | (Inr result1, w1) \<Rightarrow> forEach_throwing f xs result1 w1)"

definition SettingsCategoryMetadata_defaultSettings ::
  "('n, 'w) engine \<Rightarrow> 'n SettingsCategoryMetadata \<Rightarrow> 'w \<Rightarrow> (error + 'n plain_object) \<times> 'w" where
  "SettingsCategoryMetadata_defaultSettings E this w =
     forEach_throwing (defaultSettings_callback E) (contents this) empty_object w"

text \<open>
  \<open>this.categories.map( category => category.defaultSettings() )\<close>: the array of the
  categories has no holes, and the first call that throws ends the \<open>map\<close>.
\<close>

fun map_categories ::
  "('a \<Rightarrow> 'w \<Rightarrow> (error + 'b) \<times> 'w) \<Rightarrow> 'a list \<Rightarrow> 'w \<Rightarrow> (error + 'b list) \<times> 'w" where
  "map_categories f [] w = (Inr [], w)"
| "map_categories f (x # xs) w =
     (case f x w of
        (Inl e, w1) \<Rightarrow> (Inl e, w1)
      | (Inr y, w1) \<Rightarrow>
          (case map_categories f xs w1 of
             (Inl e, w2) \<Rightarrow> (Inl e, w2)
           | (Inr ys, w2) \<Rightarrow> (Inr (y # ys), w2)))"

definition SettingsMetadata_defaultSettings ::
  "('n, 'w) engine \<Rightarrow> 'n SettingsMetadata \<Rightarrow> 'w \<Rightarrow> (error + 'n plain_object) \<times> 'w" where
  "SettingsMetadata_defaultSettings E this w =
     (case map_categories (SettingsCategoryMetadata_defaultSettings E) (categories this) w of
        (Inl e, w1) \<Rightarrow> (Inl e, w1)
      | (Inr results, w1) \<Rightarrow> (Inr (foldl (\<lambda>a b. spread a b) empty_object results), w1))"

subsection \<open>metadataFor\<close>

text \<open>
  \<open>this.contents.find( metadata => metadata.name == key )\<close> gives the first match or
  undefined (\<open>None\<close>). The loop of the collection returns the first result that is
  truthy, which every object is, and falls off its end with undefined.
\<close>

definition SettingsCategoryMetadata_metadataFor ::
  "'n SettingsCategoryMetadata \<Rightarrow> string \<Rightarrow> 'n LeafMetadata option" where
  "SettingsCategoryMetadata_metadataFor this key =
     find (\<lambda>metadata. loose_eq (name metadata) key) (contents this)"

fun metadataFor_loop :: "'n SettingsCategoryMetadata list \<Rightarrow> string \<Rightarrow> 'n LeafMetadata option" where
  "metadataFor_loop [] key = None"
| "metadataFor_loop (category # rest) key =
     (case SettingsCategoryMetadata_metadataFor category key of
        Some result \<Rightarrow> Some result
      | None \<Rightarrow> metadataFor_loop rest key)"

definition SettingsMetadata_metadataFor :: "'n SettingsMetadata \<Rightarrow> string \<Rightarrow> 'n LeafMetadata option" where
  "SettingsMetadata_metadataFor this key = metadataFor_loop (categories this) key"

section \<open>control\<close>

text \<open>
  The method \<open>control\<close> is not modelled. The one of a setting is
  \<open>copyWithoutPrototype( this )\<close> followed by \<open>delete result.defaultValue\<close>, and
  \<open>copyWithoutPrototype\<close> is imported from \<open>utilities.js\<close>, which is not among the
  sources; the ones of a category and of the collection call it on their contents.
\<close>

section \<open>The expository math atom\<close>

subsection \<open>Strings\<close>

text \<open>
  \<open>String.prototype.trim\<close> removes white space and line terminators from both ends.
  Among the code units below 256 these are tab, line feed, vertical tab, form feed,
  carriage return, space and no-break space.
\<close>

definition is_white_space :: "char \<Rightarrow> bool" where
  "is_white_space c =
     (c \<in> {CHR 0x09, CHR 0x0A, CHR 0x0B, CHR 0x0C, CHR 0x0D, CHR 0x20, CHR 0xA0})"

definition trim :: "string \<Rightarrow> string" where
  "trim s = rev (dropWhile is_white_space (rev (dropWhile is_white_space s)))"

subsection \<open>The dialog of edit\<close>

text \<open>
  Modelled from the spec: \<open>Dialog\<close> and \<open>TextInputItem\<close> (\<open>dialog.js\<close>) and
  \<open>MathItem\<close> (\<open>math-live.js\<close>) are not among the sources; the spec calls them a
  text field and a math-editor widget, kept in sync by change callbacks. The model of the
  open dialog is the state that the callbacks of \<open>edit\<close> read and write: the value of
  the text input named \<open>latex\<close>, the value of the MathLive editor of the item named
  \<open>preview\<close>, and whether the button OK is enabled. What \<open>edit\<close> sets up from the
  editor type of the settings (labels, header and footer, a read-only preview, a hidden
  input) is read by none of its callbacks and is left out.
\<close>

record dialog =
  latexInput :: string
  mathLivePreview :: string
  OK_enabled :: bool

text \<open>
  Modelled from the spec: \<open>dialog.get( 'latex' )\<close> of \<open>Dialog\<close> (not among the
  sources) reads the value of the text input.
\<close>

definition get_latex :: "dialog \<Rightarrow> string" where
  "get_latex d = latexInput d"

text \<open>
  Modelled from the spec: \<open>dialog.querySelector( 'input[type="text"]' ).value = v\<close>
  writes the value of the text input, the only one of the dialog (\<open>Dialog\<close> is not
  among the sources). A write changes the value it names and runs no callback.
\<close>

definition set_input_value :: "dialog \<Rightarrow> string \<Rightarrow> dialog" where
  "set_input_value d v = d\<lparr>latexInput := v\<rparr>"

text \<open>
  Modelled from the spec: \<open>mathLivePreview.setValue( v )\<close> of \<open>MathItem\<close> (not among
  the sources) writes the value of the MathLive editor and runs no callback.
\<close>

definition setValue :: "dialog \<Rightarrow> string \<Rightarrow> dialog" where
  "setValue d v = d\<lparr>mathLivePreview := v\<rparr>"

text \<open>
  Modelled from the spec: \<open>mathLivePreview.mathLiveEditor.value\<close> of \<open>MathItem\<close> (not
  among the sources) reads the value of the MathLive editor.
\<close>

definition mathLiveEditor_value :: "dialog \<Rightarrow> string" where
  "mathLiveEditor_value d = mathLivePreview d"

text \<open>
  Modelled from the spec: \<open>dialog.dialog.setEnabled( 'OK', b )\<close> of the dialog of the
  host framework (not among the sources) enables or disables the button OK.
\<close>

definition setEnabled_OK :: "dialog \<Rightarrow> bool \<Rightarrow> dialog" where
  "setEnabled_OK d b = d\<lparr>OK_enabled := b\<rparr>"

text \<open>\<open>const empty = () => dialog.get( 'latex' ).trim() == ''\<close>\<close>

definition empty :: "dialog \<Rightarrow> bool" where
  "empty d = (trim (get_latex d) = [])"

text \<open>
  \<open>dialog.onChange\<close>, called with the component that changed; \<open>component_name\<close> is
  \<open>component.name\<close>.
\<close>

definition onChange :: "dialog \<Rightarrow> string \<Rightarrow> dialog" where
  "onChange d component_name =
     (let d1 = (if component_name = ''latex'' then setValue d (get_latex d) else d);
          d2 = (if component_name = ''preview'' then set_input_value d1 (mathLiveEditor_value d1)
                else d1)
      in setEnabled_OK d2 (\<not> empty d2))"

subsection \<open>The atom\<close>

text \<open>
  Modelled from the spec: the class \<open>Atom\<close> (\<open>atoms.js\<close>) is not among the
  sources; the spec lists \<open>newInline\<close>, \<open>editThenInsert\<close>, \<open>getMetadata\<close>,
  \<open>setMetadata\<close> and \<open>fillChild\<close> as its capabilities. An atom is its metadata (a
  string for each key that has a value), its children by name and its initial content.
\<close>

record atom =
  metadata :: "string \<rightharpoonup> string"
  children :: "string \<rightharpoonup> string"
  content :: string

text \<open>
  Modelled from the spec: \<open>getMetadata\<close> of \<open>Atom\<close> (not among the sources) reads
  the value of a key; for a key that has none it gives undefined (\<open>None\<close>).
\<close>

definition getMetadata :: "atom \<Rightarrow> string \<Rightarrow> string option" where
  "getMetadata this key = metadata this key"

text \<open>
  Modelled from the spec: \<open>setMetadata\<close> of \<open>Atom\<close> (not among the sources) stores a
  value under a key and changes nothing else.
\<close>

definition setMetadata :: "atom \<Rightarrow> string \<Rightarrow> string \<Rightarrow> atom" where
  "setMetadata this key v = this\<lparr>metadata := (metadata this)(key \<mapsto> v)\<rparr>"

text \<open>
  Modelled from the spec: \<open>fillChild\<close> of \<open>Atom\<close> (not among the sources) makes the
  given HTML the child of the given name and changes nothing else.
\<close>

definition fillChild :: "atom \<Rightarrow> string \<Rightarrow> string \<Rightarrow> atom" where
  "fillChild this child h = this\<lparr>children := (children this)(child \<mapsto> h)\<rparr>"

text \<open>
  Modelled from the spec: \<open>Atom.newInline( editor, content, metadata )\<close> (not among the
  sources) creates an inline atom with that content and that metadata, and no child
  filled yet.
\<close>

definition newInline :: "string \<Rightarrow> (string \<times> string) list \<Rightarrow> atom" where
  "newInline c md = \<lparr>metadata = map_of md, children = Map.empty, content = c\<rparr>"

text \<open>
  \<open>update\<close>. The function \<open>represent\<close> of \<open>notation.js\<close> is not among the
  sources: the parameter \<open>represent\<close> is the string that the template literal makes of
  its result, for the LaTeX read from the metadata (possibly undefined) and the format.
\<close>

definition update :: "(string option \<Rightarrow> string \<Rightarrow> string) \<Rightarrow> atom \<Rightarrow> atom" where
  "update represent this =
     (let latex = getMetadata this ''latex''
      in fillChild this ''body'' (represent latex ''latex''))"

text \<open>
  The callback that \<open>edit\<close> chains to \<open>dialog.show()\<close>. The promise that \<open>edit\<close>
  returns resolves to the result of this callback, which runs when the dialog closes:
  \<open>d\<close> is the dialog at that moment and \<open>userHitOK\<close> the value that \<open>show\<close>
  resolves to. The result is the value returned and the atom as the callback leaves it.
\<close>

definition edit_then ::
  "(string option \<Rightarrow> string \<Rightarrow> string) \<Rightarrow> atom \<Rightarrow> dialog \<Rightarrow> bool \<Rightarrow> bool \<times> atom" where
  "edit_then represent this d userHitOK =
     (if \<not> userHitOK \<or> empty d then (False, this)
      else (True, update represent (setMetadata this ''latex'' (get_latex d))))"

subsection \<open>install\<close>

text \<open>
  What a handler does, in order: \<open>event.preventDefault()\<close>,
  \<open>event.stopPropagation()\<close>, and \<open>atom.editThenInsert()\<close>, which carries the atom
  on which the flow is begun. Modelled from the spec: the flow itself belongs to
  \<open>Atom\<close>, which is not among the sources, and is not entered here.
\<close>

datatype effect = preventDefault | stopPropagation | editThenInsert atom

definition insertExpositoryMath :: "(string option \<Rightarrow> string \<Rightarrow> string) \<Rightarrow> effect list" where
  "insertExpositoryMath represent =
     (let atom = newInline [] [(''type'', ''expositorymath''), (''latex'', [])];
          atom = update represent atom
      in [editThenInsert atom])"

text \<open>
  The listener for \<open>keypress\<close>; \<open>key\<close> is \<open>event.key\<close>. Modelled from the spec:
  \<open>dollar_sign_shortcut\<close> is what \<open>appSettings.get( 'dollar sign shortcut' )\<close> gives
  when the key is pressed (\<open>settings-install.js\<close> is not among the sources); the
  setting is a boolean one.
\<close>

definition keypress_listener ::
  "(string option \<Rightarrow> string \<Rightarrow> string) \<Rightarrow> bool \<Rightarrow> string \<Rightarrow> effect list" where
  "keypress_listener represent dollar_sign_shortcut key =
     (if key = ''$'' \<and> dollar_sign_shortcut then
        [preventDefault, stopPropagation] @ insertExpositoryMath represent
      else [])"

text \<open>
  The object literal that \<open>install\<close> passes to \<open>addMenuItem\<close>. Its properties
  \<open>text\<close> and \<open>icon\<close> are \<open>item_text\<close> and \<open>item_icon\<close> here (the plain names
  are properties of the settings metadata), and \<open>onAction\<close> is what the action does.
\<close>

record menu_item =
  item_text :: string
  item_icon :: string
  tooltip :: string
  shortcut :: string
  onAction :: "effect list"

text \<open>
  Modelled from the spec: the editor of the host framework (not among the sources), as
  far as \<open>install\<close> uses it: the menu items of its registry by name, the listeners
  that callbacks for \<open>init\<close> will add to the body of the document, and the listeners
  for \<open>keypress\<close> that the body has. A listener gets the value of the setting at the
  time of the event and the key.
\<close>

record editor =
  menuItems :: "string \<rightharpoonup> menu_item"
  on_init :: "(bool \<Rightarrow> string \<Rightarrow> effect list) list"
  keypress_listeners :: "(bool \<Rightarrow> string \<Rightarrow> effect list) list"

text \<open>
  Modelled from the spec: \<open>editor.ui.registry.addMenuItem( name, spec )\<close> of the host
  framework (not among the sources) stores the item under its name.
\<close>

definition addMenuItem :: "editor \<Rightarrow> string \<Rightarrow> menu_item \<Rightarrow> editor" where
  "addMenuItem e nm spec = e\<lparr>menuItems := (menuItems e)(nm \<mapsto> spec)\<rparr>"

text \<open>
  Modelled from the spec: the editor of the host framework (not among the sources) fires
  \<open>init\<close>; the callbacks registered for it run, and the body of the document gets
  the listeners they add.
\<close>

definition fire_init :: "editor \<Rightarrow> editor" where
  "fire_init e = e\<lparr>keypress_listeners := keypress_listeners e @ on_init e\<rparr>"

text \<open>
  \<open>install\<close>: the menu item, then \<open>editor.on( 'init', ... )\<close> with a callback that
  adds the listener for \<open>keypress\<close> to the body of the document.
\<close>

definition install :: "(string option \<Rightarrow> string \<Rightarrow> string) \<Rightarrow> editor \<Rightarrow> editor" where
  "install represent e =
     (let e1 = addMenuItem e ''expositorymath''
                 \<lparr>item_text = ''Expository math'', item_icon = ''insert-character'',
                  tooltip = ''Insert expository math'', shortcut = ''Meta+Alt+E'',
                  onAction = insertExpositoryMath represent\<rparr>
      in e1\<lparr>on_init := on_init e1 @ [keypress_listener represent]\<rparr>)"

section \<open>Example objects\<close>

text \<open>
  The examples run on an engine with a single number, NaN, which a template literal
  renders as \<open>NaN\<close>. Its world counts the coercions of objects: an object answers
  \<open>light\<close> the first time it is coerced and \<open>evil\<close> every time after, as an object
  can whose \<open>toString\<close> keeps a counter. An assignment through an object as prototype
  meets a setter that does nothing.
\<close>

definition nan_only :: "unit \<Rightarrow> string" where
  "nan_only n = ''NaN''"

definition fickle_engine :: "(unit, nat) engine" where
  "fickle_engine =
     \<lparr>number_to_string = nan_only,
      object_to_string = (\<lambda>a w. (Inr (if w = 0 then ''light'' else ''evil''), Suc w)),
      set_through = (\<lambda>a key v obj w. (Inr obj, w))\<rparr>"

text \<open>A categorical setting with two options, and one whose list of options is empty.\<close>

definition theme_setting :: "unit LeafMetadata" where
  "theme_setting =
     \<lparr>name = Some ''theme'', label = JStr ''Theme'', defaultValue = JStr ''light'',
      type = Some ''selectbox'',
      items = Some [Some \<lparr>value = JStr ''light'', text = JStr ''light''\<rparr>,
                    Some \<lparr>value = JStr ''dark'', text = JStr ''dark''\<rparr>],
      level = None, icon = None, banner_text = None, html = None\<rparr>"


text \<open>A text setting, a boolean setting, a note, and a text setting named \<open>__proto__\<close>.\<close>

definition font_setting :: "unit LeafMetadata" where
  "font_setting =
     \<lparr>name = Some ''font'', label = JStr ''Font'', defaultValue = JStr ''NaN'',
      type = Some ''input'', items = None,
      level = None, icon = None, banner_text = None, html = None\<rparr>"

definition shortcut_setting :: "unit LeafMetadata" where
  "shortcut_setting = BoolSettingMetadata (Some ''dollar sign shortcut'') (JStr ''Shortcut'') (JBool True)"

definition plain_note :: "unit LeafMetadata" where
  "plain_note =
     \<lparr>name = None, label = JUndefined, defaultValue = JUndefined,
      type = Some ''htmlpanel'', items = None,
      level = None, icon = None, banner_text = None, html = Some (JStr ''Read this.'')\<rparr>"

definition proto_setting :: "unit LeafMetadata" where
  "proto_setting =
     \<lparr>name = Some ''__proto__'', label = JStr ''Prototype'', defaultValue = JStr ''x'',
      type = Some ''input'', items = None,
      level = None, icon = None, banner_text = None, html = None\<rparr>"

text \<open>Two collections: one of two categories, and one that holds the last setting alone.\<close>

definition example_settings :: "unit SettingsMetadata" where
  "example_settings =
     SettingsMetadata
       [SettingsCategoryMetadata ''Look'' [plain_note, theme_setting, font_setting],
        SettingsCategoryMetadata ''Keys'' [shortcut_setting]]"

definition proto_settings :: "unit SettingsMetadata" where
  "proto_settings = SettingsMetadata [SettingsCategoryMetadata ''General'' [proto_setting]]"

text \<open>
  An atom with LaTeX in its metadata, a stand-in for \<open>represent\<close> that tags the LaTeX
  with its format, and an editor on which nothing is installed yet.
\<close>

definition sample_atom :: atom where
  "sample_atom = newInline [] [(''type'', ''expositorymath''), (''latex'', ''x'')]"

definition show_latex :: "string option \<Rightarrow> string \<Rightarrow> string" where
  "show_latex latex format =
     (case latex of None \<Rightarrow> ''undefined'' | Some l \<Rightarrow> ''<'' @ format @ ''>'' @ l)"

definition bare_editor :: editor where
  "bare_editor = \<lparr>menuItems = Map.empty, on_init = [], keypress_listeners = []\<rparr>"

section \<open>String coercion in the constructors\<close>








section \<open>convert of a categorical setting\<close>

text \<open>
  Claim C6. For a categorical setting constructed with a non-empty list of options,
  \<open>convert(data)\<close> is to return the string form of \<open>data\<close> when that is the value
  of one of the options, and the value of the first option otherwise, so that the result
  is always one of the option values. The code does not do so for every \<open>data\<close>. For
  the setting with the options \<open>light\<close> and \<open>dark\<close>, on every engine: when
  \<open>data\<close> is a symbol, the template literal in the callback of \<open>some\<close> throws a
  TypeError and \<open>convert\<close> returns nothing. And since that template literal is
  evaluated again for the result, an object that answers \<open>light\<close> to the first
  coercion and \<open>evil\<close> to the second makes \<open>convert\<close> return \<open>evil\<close>, which is
  the value of no option.
\<close>

theorem convert_symbol_throws:
  "CategorySettingMetadata E (Some ''theme'') (JStr ''Theme'')
       [Some (JStr ''light''), Some (JStr ''dark'')] (JStr ''light'') w
     = (Inr theme_setting, w) \<and>
   CategorySettingMetadata_convert E theme_setting (JSymbol ''s'') w = (Inl TypeError, w) \<and>
   CategorySettingMetadata_convert fickle_engine theme_setting (JObject 0) 0
     = (Inr (JStr ''evil''), 2)"
  by (simp add: CategorySettingMetadata_def CategorySettingMetadata_convert_def option_item_def
        SettingMetadata_def theme_setting_def fickle_engine_def numeral_2_eq_2)

section \<open>What the module throws\<close>








section \<open>Keys and lookup\<close>

lemma foldl_append_concat: "foldl (\<lambda>a b. a @ b) acc xss = acc @ concat xss"
  by (induction xss arbitrary: acc) simp_all

lemma keys_concat:
  "SettingsMetadata_keys this = concat (map SettingsCategoryMetadata_keys (categories this))"
  by (simp add: SettingsMetadata_keys_def foldl_append_concat)

lemma truthy_iff: "truthy n = (n \<noteq> None \<and> n \<noteq> Some [])"
  by (cases n) auto

lemma example_keys:
  "SettingsMetadata_keys example_settings =
     [Some ''theme'', Some ''font'', Some ''dollar sign shortcut'']"
  by (simp add: SettingsMetadata_keys_def SettingsCategoryMetadata_keys_def
        example_settings_def SettingsMetadata_def SettingsCategoryMetadata_def
        plain_note_def theme_setting_def font_setting_def shortcut_setting_def
        BoolSettingMetadata_def SettingMetadata_def)

lemma example_lookup:
  "SettingsMetadata_metadataFor example_settings ''font'' = Some font_setting"
  by (simp add: SettingsMetadata_metadataFor_def SettingsCategoryMetadata_metadataFor_def
        example_settings_def SettingsMetadata_def SettingsCategoryMetadata_def
        plain_note_def theme_setting_def font_setting_def shortcut_setting_def
        BoolSettingMetadata_def SettingMetadata_def)

text \<open>
  Claim C5. The keys of the collection are the keys of its categories, concatenated in
  the order of the categories; the keys of a category are the names of its contents in
  their stored order, without the falsy ones (undefined, which is the name of a note, and
  the empty string).
\<close>

theorem keys_reflect_tree:
  "SettingsMetadata_keys this = concat (map SettingsCategoryMetadata_keys (categories this)) \<and>
   SettingsCategoryMetadata_keys c = [n \<leftarrow> map name (contents c). n \<noteq> None \<and> n \<noteq> Some []]"
proof -
  have "truthy = (\<lambda>n. n \<noteq> None \<and> n \<noteq> Some [])"
    by (rule ext) (rule truthy_iff)
  then show ?thesis
    by (simp only: keys_concat SettingsCategoryMetadata_keys_def simp_thms)
qed

theorem keys_reflect_tree_witness:
  "SettingsMetadata_keys example_settings =
     [Some ''theme'', Some ''font'', Some ''dollar sign shortcut''] \<and>
   SettingsCategoryMetadata_keys
       (SettingsCategoryMetadata ''Look'' [plain_note, theme_setting, font_setting])
     = [Some ''theme'', Some ''font'']"
  using keys_reflect_tree[of example_settings
      "SettingsCategoryMetadata ''Look'' [plain_note, theme_setting, font_setting]"]
  by (simp add: SettingsCategoryMetadata_keys_def
        example_settings_def SettingsMetadata_def SettingsCategoryMetadata_def
        plain_note_def theme_setting_def font_setting_def shortcut_setting_def
        BoolSettingMetadata_def SettingMetadata_def)

lemma category_key_iff:
  "key \<noteq> [] \<Longrightarrow>
   (Some key \<in> set (SettingsCategoryMetadata_keys c)) = (\<exists>m \<in> set (contents c). name m = Some key)"
  by (force simp: SettingsCategoryMetadata_keys_def)

lemma loose_eq_iff: "loose_eq n key = (n = Some key)"
  by (cases n) auto

lemma category_metadataFor_None:
  "(SettingsCategoryMetadata_metadataFor c key = None) =
     (\<forall>m \<in> set (contents c). name m \<noteq> Some key)"
  by (auto simp: SettingsCategoryMetadata_metadataFor_def find_None_iff loose_eq_iff)

lemma category_metadataFor_Some:
  "SettingsCategoryMetadata_metadataFor c key = Some m \<Longrightarrow>
   m \<in> set (contents c) \<and> name m = Some key"
  by (auto simp: SettingsCategoryMetadata_metadataFor_def find_Some_iff loose_eq_iff)

lemma loop_None:
  "(metadataFor_loop cs key = None) =
     (\<forall>c \<in> set cs. \<forall>m \<in> set (contents c). name m \<noteq> Some key)"
proof (induction cs)
  case Nil
  show ?case by simp
next
  case (Cons c cs)
  show ?case
  proof (cases "SettingsCategoryMetadata_metadataFor c key")
    case None
    then have "\<forall>m \<in> set (contents c). name m \<noteq> Some key"
      by (simp add: category_metadataFor_None)
    with Cons None show ?thesis by simp
  next
    case (Some m)
    then have "m \<in> set (contents c) \<and> name m = Some key" by (rule category_metadataFor_Some)
    with Some show ?thesis by auto
  qed
qed

lemma loop_Some:
  "metadataFor_loop cs key = Some m \<Longrightarrow>
   \<exists>c \<in> set cs. m \<in> set (contents c) \<and> name m = Some key"
  by (induction cs) (auto dest: category_metadataFor_Some split: option.splits)

text \<open>
  Claim C8. For every collection and every non-empty string \<open>key\<close>, \<open>metadataFor(key)\<close>
  returns a metadata object if and only if \<open>key\<close> occurs in \<open>keys()\<close>; the object
  returned has that name, so it is never a note (whose name is undefined), and the
  lookup of a key that is not in \<open>keys()\<close> gives undefined.
\<close>

theorem metadataFor_iff_key:
  assumes "key \<noteq> []"
  shows "(SettingsMetadata_metadataFor this key \<noteq> None)
           = (Some key \<in> set (SettingsMetadata_keys this)) \<and>
         (\<forall>m. SettingsMetadata_metadataFor this key = Some m \<longrightarrow> name m = Some key)"
proof
  show "(SettingsMetadata_metadataFor this key \<noteq> None)
          = (Some key \<in> set (SettingsMetadata_keys this))"
    using assms
    by (simp add: SettingsMetadata_metadataFor_def loop_None keys_concat category_key_iff)
next
  show "\<forall>m. SettingsMetadata_metadataFor this key = Some m \<longrightarrow> name m = Some key"
    by (auto simp: SettingsMetadata_metadataFor_def dest: loop_Some)
qed

theorem metadataFor_iff_key_witness:
  "SettingsMetadata_metadataFor example_settings ''font'' = Some font_setting \<and>
   Some ''font'' \<in> set (SettingsMetadata_keys example_settings) \<and>
   SettingsMetadata_metadataFor example_settings ''undefined'' = None \<and>
   Some ''undefined'' \<notin> set (SettingsMetadata_keys example_settings)"
proof -
  have a: "''font'' \<noteq> []" and b: "''undefined'' \<noteq> []" by simp_all
  from metadataFor_iff_key[OF a, of example_settings]
    metadataFor_iff_key[OF b, of example_settings] example_lookup
  show ?thesis by (simp add: example_keys)
qed

section \<open>Default settings\<close>

text \<open>
  Claim C2. For a collection whose settings have pairwise distinct non-empty names, and
  every name \<open>k\<close> in \<open>keys()\<close>, \<open>defaultSettings()[k]\<close> is to equal
  \<open>metadataFor(k).defaultValue\<close>. The code does not do so for a setting named
  \<open>__proto__\<close>, here the only setting of the collection. On every engine, \<open>keys()\<close>
  lists the name and \<open>metadataFor\<close> finds the setting, whose default value is
  \<open>'x'\<close>; but \<open>defaultSettings()\<close> returns an object without any own property,
  because the assignment \<open>result['__proto__'] = 'x'\<close> runs the setter of
  \<open>Object.prototype\<close>, which ignores a string. Reading
  \<open>defaultSettings()['__proto__']\<close> then gives the prototype object, not \<open>'x'\<close>.
\<close>

theorem defaultSettings_proto_name:
  "TextSettingMetadata E (Some ''__proto__'') (JStr ''Prototype'') (JStr ''x'') w
     = (Inr proto_setting, w) \<and>
   SettingsMetadata_keys proto_settings = [Some ''__proto__''] \<and>
   SettingsMetadata_metadataFor proto_settings ''__proto__'' = Some proto_setting \<and>
   defaultValue proto_setting = JStr ''x'' \<and>
   SettingsMetadata_defaultSettings E proto_settings w
     = (Inr \<lparr>own = Map.empty, proto = Object_prototype\<rparr>, w)"
  by (simp add: TextSettingMetadata_def SettingsMetadata_keys_def SettingsCategoryMetadata_keys_def
        SettingsMetadata_metadataFor_def SettingsCategoryMetadata_metadataFor_def
        SettingsMetadata_defaultSettings_def SettingsCategoryMetadata_defaultSettings_def
        defaultSettings_callback_def assign_def spread_def empty_object_def
        proto_settings_def proto_setting_def SettingsMetadata_def SettingsCategoryMetadata_def
        SettingMetadata_def)

section \<open>The expository math atom\<close>

text \<open>
  Claim C3. The handler \<open>onChange\<close> of the dialog keeps the two widgets in sync. When
  the component named \<open>latex\<close> changes, the MathLive preview is set to the value of the
  text input, which stays as it is. When the component named \<open>preview\<close> changes, the
  text input is set to the value of the MathLive editor, which stays as it is. After
  either change the two values are equal, and after any change the button OK is enabled
  exactly when the value of the text input, trimmed, is not empty.
\<close>

theorem onChange_keeps_in_sync:
  "(component_name = ''latex'' \<longrightarrow>
      mathLivePreview (onChange d component_name) = latexInput d \<and>
      latexInput (onChange d component_name) = latexInput d) \<and>
   (component_name = ''preview'' \<longrightarrow>
      latexInput (onChange d component_name) = mathLivePreview d \<and>
      mathLivePreview (onChange d component_name) = mathLivePreview d) \<and>
   (component_name = ''latex'' \<or> component_name = ''preview'' \<longrightarrow>
      latexInput (onChange d component_name) = mathLivePreview (onChange d component_name)) \<and>
   OK_enabled (onChange d component_name)
     = (trim (latexInput (onChange d component_name)) \<noteq> [])"
  by (simp add: onChange_def Let_def setValue_def set_input_value_def setEnabled_OK_def
        get_latex_def mathLiveEditor_value_def empty_def)

theorem onChange_keeps_in_sync_witness:
  "onChange \<lparr>latexInput = '' x^2 '', mathLivePreview = ''x'', OK_enabled = False\<rparr> ''latex''
     = \<lparr>latexInput = '' x^2 '', mathLivePreview = '' x^2 '', OK_enabled = True\<rparr> \<and>
   onChange \<lparr>latexInput = ''x'', mathLivePreview = [], OK_enabled = True\<rparr> ''preview''
     = \<lparr>latexInput = [], mathLivePreview = [], OK_enabled = False\<rparr>"
  using onChange_keeps_in_sync
      [of "''latex''" "\<lparr>latexInput = '' x^2 '', mathLivePreview = ''x'', OK_enabled = False\<rparr>"]
    onChange_keeps_in_sync
      [of "''preview''" "\<lparr>latexInput = ''x'', mathLivePreview = [], OK_enabled = True\<rparr>"]
  by (simp add: onChange_def Let_def setValue_def set_input_value_def setEnabled_OK_def
        get_latex_def mathLiveEditor_value_def empty_def trim_def is_white_space_def)

text \<open>
  Claim C4. The promise of \<open>edit()\<close> resolves to true exactly when the user confirmed
  the dialog and the LaTeX of the dialog, trimmed, is not empty. When the user cancelled
  or the LaTeX is empty after trimming, it resolves to false and the atom is left as it
  was, its metadata \<open>latex\<close> included. Otherwise the metadata \<open>latex\<close> is set to the
  LaTeX of the dialog and \<open>update()\<close> runs, which fills the child \<open>body\<close> with the
  representation of that LaTeX.
\<close>

theorem edit_then_result:
  "fst (edit_then represent this d userHitOK) = (userHitOK \<and> trim (latexInput d) \<noteq> []) \<and>
   (\<not> userHitOK \<or> trim (latexInput d) = [] \<longrightarrow>
      edit_then represent this d userHitOK = (False, this)) \<and>
   (userHitOK \<and> trim (latexInput d) \<noteq> [] \<longrightarrow>
      edit_then represent this d userHitOK =
        (True, update represent (setMetadata this ''latex'' (latexInput d))) \<and>
      getMetadata (snd (edit_then represent this d userHitOK)) ''latex'' = Some (latexInput d) \<and>
      children (snd (edit_then represent this d userHitOK)) ''body''
        = Some (represent (Some (latexInput d)) ''latex''))"
  by (simp add: edit_then_def empty_def get_latex_def update_def setMetadata_def getMetadata_def
        fillChild_def Let_def)

theorem edit_then_result_witness:
  "edit_then show_latex sample_atom
       \<lparr>latexInput = ''y+1'', mathLivePreview = ''y+1'', OK_enabled = True\<rparr> True
     = (True, sample_atom\<lparr>metadata := (metadata sample_atom)(''latex'' \<mapsto> ''y+1''),
                          children := (children sample_atom)(''body'' \<mapsto> ''<latex>y+1'')\<rparr>) \<and>
   edit_then show_latex sample_atom
       \<lparr>latexInput = ''  '', mathLivePreview = ''y'', OK_enabled = False\<rparr> True
     = (False, sample_atom) \<and>
   edit_then show_latex sample_atom
       \<lparr>latexInput = ''y+1'', mathLivePreview = ''y+1'', OK_enabled = True\<rparr> False
     = (False, sample_atom)"
  using edit_then_result[of show_latex sample_atom
      "\<lparr>latexInput = ''y+1'', mathLivePreview = ''y+1'', OK_enabled = True\<rparr>" True]
    edit_then_result[of show_latex sample_atom
      "\<lparr>latexInput = ''  '', mathLivePreview = ''y'', OK_enabled = False\<rparr>" True]
    edit_then_result[of show_latex sample_atom
      "\<lparr>latexInput = ''y+1'', mathLivePreview = ''y+1'', OK_enabled = True\<rparr>" False]
  by (simp add: trim_def is_white_space_def update_def setMetadata_def getMetadata_def
        fillChild_def Let_def show_latex_def)

text \<open>
  Claim C7. \<open>install(editor)\<close> registers a menu item under the name
  \<open>expositorymath\<close>, and a listener that the body of the document gets when the editor
  fires \<open>init\<close>. The listener does something exactly when the key is \<open>$\<close> and the
  setting \<open>dollar sign shortcut\<close> is true: it stops the event, creates an inline atom
  with type \<open>expositorymath\<close> and empty LaTeX, renders it into its body and begins
  its edit-then-insert flow. When the setting is false it does nothing: the key press
  is left to the editor and no atom is created.
\<close>

theorem install_dollar_shortcut:
  "menuItems (install represent e) ''expositorymath'' =
     Some \<lparr>item_text = ''Expository math'', item_icon = ''insert-character'',
           tooltip = ''Insert expository math'', shortcut = ''Meta+Alt+E'',
           onAction = insertExpositoryMath represent\<rparr> \<and>
   keypress_listeners (fire_init (install represent e)) =
     keypress_listeners e @ on_init e @ [keypress_listener represent] \<and>
   (keypress_listener represent dollar_sign_shortcut key \<noteq> [])
     = (key = ''$'' \<and> dollar_sign_shortcut) \<and>
   (dollar_sign_shortcut \<longrightarrow>
      keypress_listener represent dollar_sign_shortcut ''$'' =
        [preventDefault, stopPropagation,
         editThenInsert \<lparr>metadata = [''type'' \<mapsto> ''expositorymath'', ''latex'' \<mapsto> []],
                         children = [''body'' \<mapsto> represent (Some []) ''latex''],
                         content = []\<rparr>]) \<and>
   (\<not> dollar_sign_shortcut \<longrightarrow> keypress_listener represent dollar_sign_shortcut key = [])"
  by (auto simp: install_def addMenuItem_def fire_init_def keypress_listener_def
        insertExpositoryMath_def newInline_def update_def getMetadata_def fillChild_def Let_def)

theorem install_dollar_shortcut_witness:
  "map (\<lambda>listener. listener True ''$'')
       (keypress_listeners (fire_init (install show_latex bare_editor))) =
     [[preventDefault, stopPropagation,
       editThenInsert \<lparr>metadata = [''type'' \<mapsto> ''expositorymath'', ''latex'' \<mapsto> []],
                       children = [''body'' \<mapsto> ''<latex>''],
                       content = []\<rparr>]] \<and>
   map (\<lambda>listener. listener False ''$'')
       (keypress_listeners (fire_init (install show_latex bare_editor))) = [[]] \<and>
   map (\<lambda>listener. listener True ''a'')
       (keypress_listeners (fire_init (install show_latex bare_editor))) = [[]]"
  using install_dollar_shortcut[of show_latex bare_editor True "''$''"]
    install_dollar_shortcut[of show_latex bare_editor False "''$''"]
    install_dollar_shortcut[of show_latex bare_editor True "''a''"]
  by (simp add: bare_editor_def show_latex_def keypress_listener_def)

end
